theory Spec2Isabelle
  imports Complex_Main "HOL-Library.Char_ord" "HOL-Library.List_Lexorder"
    "HOL-Library.Multiset" "HOL-Library.AList"
begin

section \<open>View Manager configuration (ViewManager/config.py)\<close>

text \<open>
  The development follows \<^verbatim>\<open>src/ViewManager/config.py\<close>. Python dictionaries are
  association lists with distinct keys, Python exceptions are values of \<open>error\<close>,
  objects that the code shares and mutates in place (the library configuration records
  and their \<^verbatim>\<open>views\<close> dictionaries) live in an explicit heap, and the Qt widgets
  are records holding exactly the state the code reads back from them.
\<close>

subsection \<open>Exceptions and strings\<close>

datatype error = KeyError | IndexError | ValueError

text \<open>
  \<^verbatim>\<open>unicode.strip()\<close>: removes leading and trailing whitespace. Characters are the
  8-bit characters of \<open>string\<close>; the whitespace characters are the ASCII ones.
\<close>

definition isspace :: "char \<Rightarrow> bool" where
  "isspace c = (c \<in> set [CHR '' '', CHR 0x09, CHR 0x0A, CHR 0x0B, CHR 0x0C, CHR 0x0D])"

definition strip :: "string \<Rightarrow> string" where
  "strip s = rev (dropWhile isspace (rev (dropWhile isspace s)))"

text \<open>\<^verbatim>\<open>unicode.lower()\<close> on the ASCII letters.\<close>

definition lower_chr :: "char \<Rightarrow> char" where
  "lower_chr c =
     (case map_of (zip ''ABCDEFGHIJKLMNOPQRSTUVWXYZ'' ''abcdefghijklmnopqrstuvwxyz'') c of
        Some d \<Rightarrow> d
      | None \<Rightarrow> c)"

definition lower :: "string \<Rightarrow> string" where
  "lower s = map lower_chr s"

subsection \<open>Constants of the module\<close>

definition PREFS_NAMESPACE :: string where
  "PREFS_NAMESPACE = ''ViewManagerPlugin''"

definition PREFS_KEY_SETTINGS :: string where
  "PREFS_KEY_SETTINGS = ''settings''"

definition LAST_VIEW_ITEM :: string where
  "LAST_VIEW_ITEM = ''*Last View Used''"

definition DEFAULT_SCHEMA_VERSION :: rat where
  "DEFAULT_SCHEMA_VERSION = 3 / 2"

subsection \<open>The persisted record\<close>

text \<open>
  A view definition: the dictionary under one view name. The fields are named after
  the key constants \<^verbatim>\<open>KEY_COLUMNS\<close>, \<^verbatim>\<open>KEY_SORT\<close>, \<^verbatim>\<open>KEY_APPLY_RESTRICTION\<close>,
  \<^verbatim>\<open>KEY_RESTRICTION\<close>, \<^verbatim>\<open>KEY_APPLY_SEARCH\<close> and \<^verbatim>\<open>KEY_SEARCH\<close>.
\<close>

record view_info =
  key_columns :: "(string \<times> int) list"
  key_sort :: "(string \<times> int) list"
  key_apply_restriction :: bool
  key_restriction :: string
  key_apply_search :: bool
  key_search :: string

type_synonym views_dict = "(string \<times> view_info) list"

type_synonym addr = nat

text \<open>
  A library configuration record. \<^verbatim>\<open>KEY_VIEWS\<close> holds a reference to the views
  dictionary, a separate mutable object; \<^verbatim>\<open>KEY_SCHEMA_VERSION\<close> is absent (\<open>None\<close>)
  until the schema migration writes it.
\<close>

record library_config =
  key_views :: addr
  key_last_view :: string
  key_auto_apply_view :: bool
  key_view_to_apply :: string
  key_schema_version :: "rat option"

record heap =
  configs :: "library_config list"
  viewdicts :: "views_dict list"

text \<open>
  The host's per-library database object. \<open>prefs\<close> is its namespaced preferences
  store, holding references to the stored objects; \<open>prefs_writes\<close> counts the calls
  of \<^verbatim>\<open>set_namespaced\<close>.
  Modelled from the spec: \<^verbatim>\<open>get_library_uuid\<close> (common_utils) returns the stable
  UUID that identifies the library.
\<close>

record db =
  library_uuid :: string
  prefs :: "(string \<times> addr) list"
  prefs_writes :: nat

definition get_library_uuid :: "db \<Rightarrow> string" where
  "get_library_uuid d = library_uuid d"

definition namespaced_key :: "string \<Rightarrow> string \<Rightarrow> string" where
  "namespaced_key ns k = ''namespaced:'' @ ns @ '':'' @ k"

definition get_namespaced :: "db \<Rightarrow> string \<Rightarrow> string \<Rightarrow> addr \<Rightarrow> addr" where
  "get_namespaced d ns k dflt =
     (case map_of (prefs d) (namespaced_key ns k) of Some a \<Rightarrow> a | None \<Rightarrow> dflt)"

definition set_namespaced :: "db \<Rightarrow> string \<Rightarrow> string \<Rightarrow> addr \<Rightarrow> db" where
  "set_namespaced d ns k a =
     d\<lparr>prefs := AList.update (namespaced_key ns k) a (prefs d),
       prefs_writes := Suc (prefs_writes d)\<rparr>"

text \<open>
  The process environment: the heap, the legacy preferences file of
  \<^verbatim>\<open>plugin_prefs\<close> (whether it exists on disk) and the \<^verbatim>\<open>'libraries'\<close> entry of
  \<^verbatim>\<open>plugin_prefs\<close> (\<open>None\<close> when the key is absent), a dictionary from library id to
  a configuration record.
\<close>

record env =
  heap_of :: heap
  json_exists :: bool
  plugin_prefs_libraries :: "(string \<times> addr) list option"

text \<open>
  \<^verbatim>\<open>DEFAULT_LIBRARY_VALUES\<close> is the module-level dictionary; it is the object at
  address 0, and its views dictionary is the views object at address 0.
\<close>

definition DEFAULT_LIBRARY_VALUES :: addr where
  "DEFAULT_LIBRARY_VALUES = 0"

definition default_library_record :: library_config where
  "default_library_record =
     \<lparr>key_views = 0, key_last_view = '''', key_auto_apply_view = False,
      key_view_to_apply = LAST_VIEW_ITEM, key_schema_version = None\<rparr>"

definition initial_heap :: heap where
  "initial_heap = \<lparr>configs = [default_library_record], viewdicts = [[]]\<rparr>"

text \<open>
  \<^verbatim>\<open>copy.deepcopy\<close> of a configuration record: a new record object whose views
  entry refers to a new copy of the views dictionary.
\<close>

definition deepcopy :: "heap \<Rightarrow> addr \<Rightarrow> heap \<times> addr" where
  "deepcopy h a =
     (let c = configs h ! a;
          vd = viewdicts h ! key_views c;
          va = length (viewdicts h);
          ca = length (configs h)
      in (\<lparr>configs = configs h @ [c\<lparr>key_views := va\<rparr>],
           viewdicts = viewdicts h @ [vd]\<rparr>, ca))"

subsection \<open>Migration of the legacy preferences file\<close>

text \<open>
  \<^verbatim>\<open>migrate_json_config_if_required\<close>. The argument \<open>remove_ok\<close> says whether
  \<^verbatim>\<open>os.remove\<close> succeeds; when it raises, the \<^verbatim>\<open>except: pass\<close> swallows it.
\<close>

definition migrate_json_config_if_required :: "bool \<Rightarrow> env \<Rightarrow> env" where
  "migrate_json_config_if_required remove_ok e =
     (if \<not> json_exists e then e
      else if plugin_prefs_libraries e = None
        then (if remove_ok then e\<lparr>json_exists := False\<rparr> else e)
      else e)"

subsection \<open>Schema migration and access to the library record\<close>

definition set_library_config :: "db \<Rightarrow> addr \<Rightarrow> db" where
  "set_library_config d library_config =
     set_namespaced d PREFS_NAMESPACE PREFS_KEY_SETTINGS library_config"

definition migrate_library_config_if_required :: "env \<Rightarrow> db \<Rightarrow> addr \<Rightarrow> env \<times> db" where
  "migrate_library_config_if_required e d library_config =
     (let lc = configs (heap_of e) ! library_config;
          schema_version = (case key_schema_version lc of Some v \<Rightarrow> v | None \<Rightarrow> 0)
      in if schema_version = DEFAULT_SCHEMA_VERSION then (e, d)
         else
           (let h = heap_of e;
                e' = e\<lparr>heap_of := h\<lparr>configs := (configs h)
                        [library_config := lc\<lparr>key_schema_version := Some DEFAULT_SCHEMA_VERSION\<rparr>]\<rparr>\<rparr>
            in (e', set_library_config d library_config)))"

text \<open>
  Assigning to or deleting from \<^verbatim>\<open>plugin_prefs\<close> (the host's JSONConfig) commits the
  dictionary to its file.
\<close>

definition commit :: "env \<Rightarrow> env" where
  "commit e = e\<lparr>json_exists := True\<rparr>"

text \<open>
  \<^verbatim>\<open>get_library_config\<close>. The default argument
  \<^verbatim>\<open>copy.deepcopy(DEFAULT_LIBRARY_VALUES)\<close> is evaluated before
  \<^verbatim>\<open>get_namespaced\<close> is called, whether or not a stored record exists.
\<close>

definition get_library_config :: "env \<Rightarrow> db \<Rightarrow> (env \<times> db) \<times> addr" where
  "get_library_config e d =
     (let library_id = get_library_uuid d;
          (e1, found) =
            (case plugin_prefs_libraries e of
               None \<Rightarrow> (e, None)
             | Some libraries \<Rightarrow>
                 (case map_of libraries library_id of
                    None \<Rightarrow> (e, None)
                  | Some lc \<Rightarrow>
                      (let libraries' = AList.delete library_id libraries
                       in if length libraries' = 0
                          then (commit (e\<lparr>plugin_prefs_libraries := None\<rparr>), Some lc)
                          else (commit (e\<lparr>plugin_prefs_libraries := Some libraries'\<rparr>), Some lc))));
          (e2, library_config) =
            (case found of
               Some lc \<Rightarrow> (e1, lc)
             | None \<Rightarrow>
                 (let (h', fresh) = deepcopy (heap_of e1) DEFAULT_LIBRARY_VALUES
                  in (e1\<lparr>heap_of := h'\<rparr>,
                      get_namespaced d PREFS_NAMESPACE PREFS_KEY_SETTINGS fresh)))
      in (migrate_library_config_if_required e2 d library_config, library_config))"

subsection \<open>Decimal text of integers; splitting\<close>

text \<open>\<^verbatim>\<open>str(asc)\<close> for an integer: decimal digits, with a minus sign when negative.\<close>

definition digit_chr :: "nat \<Rightarrow> char" where
  "digit_chr d = ''0123456789'' ! d"

function str_nat :: "nat \<Rightarrow> string" where
  "str_nat n = (if n < 10 then [digit_chr n] else str_nat (n div 10) @ [digit_chr (n mod 10)])"
  by pat_completeness auto
termination
  by (relation "measure (\<lambda>n. n)") auto

definition str_int :: "int \<Rightarrow> string" where
  "str_int i = (if i < 0 then CHR ''-'' # str_nat (nat (- i)) else str_nat (nat i))"

text \<open>
  \<^verbatim>\<open>int(s)\<close> for a string: surrounding whitespace is ignored, one sign is allowed,
  at least one decimal digit must follow; anything else raises ValueError.
\<close>

definition digit_val :: "char \<Rightarrow> nat option" where
  "digit_val c = map_of (zip ''0123456789'' [0, 1, 2, 3, 4, 5, 6, 7, 8, 9]) c"

fun parse_digits :: "string \<Rightarrow> nat \<Rightarrow> nat option" where
  "parse_digits [] acc = Some acc"
| "parse_digits (c # cs) acc =
     (case digit_val c of None \<Rightarrow> None | Some d \<Rightarrow> parse_digits cs (10 * acc + d))"

definition py_int :: "string \<Rightarrow> error + int" where
  "py_int s =
     (case strip s of
        [] \<Rightarrow> Inl ValueError
      | c # cs \<Rightarrow>
          if c = CHR ''-'' \<or> c = CHR ''+'' then
            (if cs = [] then Inl ValueError
             else case parse_digits cs 0 of
                    None \<Rightarrow> Inl ValueError
                  | Some n \<Rightarrow> Inr (if c = CHR ''-'' then - int n else int n))
          else (case parse_digits (c # cs) 0 of
                  None \<Rightarrow> Inl ValueError
                | Some n \<Rightarrow> Inr (int n)))"

text \<open>\<^verbatim>\<open>s.split('|')\<close>: the pieces between the separators, at least one piece.\<close>

fun split_on :: "char \<Rightarrow> string \<Rightarrow> string list" where
  "split_on sep [] = [[]]"
| "split_on sep (c # cs) =
     (if c = sep then [] # split_on sep cs
      else (case split_on sep cs of
              [] \<Rightarrow> [[c]]
            | w # ws \<Rightarrow> (c # w) # ws))"

text \<open>
  \<^verbatim>\<open>dict(pairs)\<close>: a later pair replaces an earlier one with the same key;
  \<^verbatim>\<open>d.get(k, default)\<close>.
\<close>

definition dict_of :: "('k \<times> 'v) list \<Rightarrow> ('k \<times> 'v) list" where
  "dict_of ps = foldl (\<lambda>d (k, v). AList.update k v d) [] ps"

definition dict_get :: "('k \<times> 'v) list \<Rightarrow> 'k \<Rightarrow> 'v \<Rightarrow> 'v" where
  "dict_get d k dflt = (case map_of d k of Some v \<Rightarrow> v | None \<Rightarrow> dflt)"

subsection \<open>The host application as the code queries it\<close>

text \<open>
  The state of the library view (\<^verbatim>\<open>get_state()\<close> and \<^verbatim>\<open>get_default_state()\<close>):
  the position of every column, the hidden columns and the column sizes.
\<close>

record view_state =
  column_positions :: "string \<Rightarrow> int"
  hidden_columns :: "string list"
  column_sizes :: "(string \<times> int) list"

text \<open>
  \<open>headers\<close> is \<^verbatim>\<open>library_view.model().headers\<close>, the header text of a column,
  which the host defines for every column of \<open>column_map\<close>. \<open>saved_search_names\<close> is
  \<^verbatim>\<open>saved_searches().names()\<close> and \<open>icu_sort_key\<close> the host's collation key
  \<^verbatim>\<open>sort_key\<close>.
\<close>

record gui =
  headers :: "string \<Rightarrow> string"
  column_map :: "string list"
  current_state :: view_state
  default_state :: view_state
  saved_search_names :: "string list"
  icu_sort_key :: "string \<Rightarrow> string"

subsection \<open>Combo boxes\<close>

text \<open>
  A QComboBox is its list of item texts and its current index, \<open>-1\<close> when no item is
  current. Adding the first item to an empty box makes it current; an index out of
  range clears the selection; \<^verbatim>\<open>findText\<close> is the index of the first item with
  exactly that text, or \<open>-1\<close>; \<^verbatim>\<open>currentText\<close> is empty when no item is current.
\<close>

record combo =
  combo_items :: "string list"
  currentIndex :: int

definition clear_combo :: "'a combo_scheme \<Rightarrow> 'a combo_scheme" where
  "clear_combo c = c\<lparr>combo_items := [], currentIndex := - 1\<rparr>"

definition addItem :: "string \<Rightarrow> 'a combo_scheme \<Rightarrow> 'a combo_scheme" where
  "addItem s c =
     c\<lparr>combo_items := combo_items c @ [s],
       currentIndex := (if combo_items c = [] then 0 else currentIndex c)\<rparr>"

definition combo_count :: "'a combo_scheme \<Rightarrow> nat" where
  "combo_count c = length (combo_items c)"

definition setCurrentIndex :: "int \<Rightarrow> 'a combo_scheme \<Rightarrow> 'a combo_scheme" where
  "setCurrentIndex i c =
     c\<lparr>currentIndex := (if 0 \<le> i \<and> i < int (length (combo_items c)) then i else - 1)\<rparr>"

definition currentText :: "'a combo_scheme \<Rightarrow> string" where
  "currentText c =
     (if 0 \<le> currentIndex c \<and> currentIndex c < int (length (combo_items c))
      then combo_items c ! nat (currentIndex c) else '''')"

fun find_from :: "string \<Rightarrow> string list \<Rightarrow> int \<Rightarrow> int" where
  "find_from t [] i = - 1"
| "find_from t (x # xs) i = (if x = t then i else find_from t xs (i + 1))"

definition findText :: "string \<Rightarrow> 'a combo_scheme \<Rightarrow> int" where
  "findText t c = find_from t (combo_items c) 0"

text \<open>\<^verbatim>\<open>ViewComboBox\<close>: a combo box with the flag \<^verbatim>\<open>special\<close>.\<close>

record view_combo = combo +
  special :: bool

text \<open>\<^verbatim>\<open>if selected_text:\<close> holds for a string that is neither None nor empty.\<close>

definition select_view :: "view_combo \<Rightarrow> string option \<Rightarrow> view_combo" where
  "select_view c selected_text =
     (case selected_text of
        Some t \<Rightarrow>
          if t \<noteq> [] then setCurrentIndex (findText t c) c
          else if combo_count c > 0 then setCurrentIndex 0 c else c
      | None \<Rightarrow> if combo_count c > 0 then setCurrentIndex 0 c else c)"

definition populate_combo :: "view_combo \<Rightarrow> views_dict \<Rightarrow> string option \<Rightarrow> view_combo" where
  "populate_combo c views_arg selected_text =
     (let c1 = clear_combo c;
          c2 = (if special c1 then addItem LAST_VIEW_ITEM c1 else c1);
          c3 = foldl (\<lambda>b view_name. addItem view_name b) c2 (sort (map fst views_arg))
      in select_view c3 selected_text)"

definition new_ViewComboBox :: "views_dict \<Rightarrow> bool \<Rightarrow> view_combo" where
  "new_ViewComboBox views_arg spec =
     populate_combo \<lparr>combo_items = [], currentIndex = - 1, special = spec\<rparr> views_arg None"

text \<open>\<^verbatim>\<open>SearchComboBox\<close>: an empty entry, then the saved searches in collation order.\<close>

definition populate_search_combo :: "gui \<Rightarrow> combo \<Rightarrow> combo" where
  "populate_search_combo g c =
     (let c1 = addItem '''' (clear_combo c);
          p = sort_key (icu_sort_key g) (saved_search_names g)
      in foldl (\<lambda>b search_name. addItem search_name b) c1 p)"

definition new_SearchComboBox :: "gui \<Rightarrow> combo" where
  "new_SearchComboBox g = populate_search_combo g \<lparr>combo_items = [], currentIndex = - 1\<rparr>"

definition select_value :: "combo \<Rightarrow> string \<Rightarrow> combo" where
  "select_value c search =
     (if search \<noteq> [] then setCurrentIndex (findText search c) c
      else if combo_count c > 0 then setCurrentIndex 0 c else c)"

subsection \<open>List widgets\<close>

text \<open>
  A QListWidgetItem: its text, its \<^verbatim>\<open>Qt.UserRole\<close> data, whether it carries the flag
  \<^verbatim>\<open>Qt.ItemIsUserCheckable\<close>, and its check state, \<open>None\<close> as long as
  \<^verbatim>\<open>setCheckState\<close> was never called; \<^verbatim>\<open>checkState()\<close> then reads Unchecked.
  Icons and the enabled state of the context-menu actions are display only and are
  left out.
\<close>

datatype check_state = Unchecked | Checked

record list_item =
  item_text :: string
  item_data :: string
  user_checkable :: bool
  check_role :: "check_state option"

definition checkState :: "list_item \<Rightarrow> check_state" where
  "checkState item = (case check_role item of None \<Rightarrow> Unchecked | Some s \<Rightarrow> s)"

text \<open>
  \<^verbatim>\<open>ColumnListWidget\<close> and its subclass \<^verbatim>\<open>SortColumnListWidget\<close>, which uses
  neither \<open>saved_column_widths\<close> nor \<open>all_columns_with_widths\<close>.
\<close>

record column_list_widget =
  widget_gui :: gui
  lw_items :: "list_item list"
  currentRow :: int
  saved_column_widths :: "(string \<times> int) list"
  all_columns_with_widths :: "(string \<times> int) list"

definition new_ColumnListWidget :: "gui \<Rightarrow> column_list_widget" where
  "new_ColumnListWidget g =
     \<lparr>widget_gui = g, lw_items = [], currentRow = - 1,
      saved_column_widths = [], all_columns_with_widths = []\<rparr>"

definition clear_list :: "column_list_widget \<Rightarrow> column_list_widget" where
  "clear_list w = w\<lparr>lw_items := [], currentRow := - 1\<rparr>"

definition populate_column :: "column_list_widget \<Rightarrow> string \<Rightarrow> bool \<Rightarrow> column_list_widget" where
  "populate_column w colname is_checked =
     (let item = \<lparr>item_text = headers (widget_gui w) colname,
                  item_data = colname,
                  user_checkable = (colname \<noteq> ''ondevice''),
                  check_role = (if colname \<noteq> ''ondevice''
                                then Some (if is_checked then Checked else Unchecked)
                                else None)\<rparr>
      in w\<lparr>lw_items := lw_items w @ [item]\<rparr>)"

text \<open>
  The first loop of \<^verbatim>\<open>populate\<close>: every stored column that is still in the list of
  all columns is taken out of that list and added checked.
\<close>

fun populate_checked ::
  "column_list_widget \<Rightarrow> (string \<times> int) list \<Rightarrow> string list \<Rightarrow> column_list_widget \<times> string list"
where
  "populate_checked w [] all_names = (w, all_names)"
| "populate_checked w ((colname, width) # cols) all_names =
     (if colname \<in> set all_names
      then populate_checked (populate_column w colname True) cols (remove1 colname all_names)
      else populate_checked w cols all_names)"

definition populate ::
  "column_list_widget \<Rightarrow> (string \<times> int) list \<Rightarrow> (string \<times> int) list \<Rightarrow> column_list_widget"
where
  "populate w cols all_cols =
     (let w1 = clear_list (w\<lparr>saved_column_widths := dict_of cols,
                               all_columns_with_widths := all_cols\<rparr>);
          (w2, rest) = populate_checked w1 cols (map fst all_cols)
      in foldl (\<lambda>b colname. populate_column b colname False) w2 rest)"

fun use_width_of :: "(string \<times> int) list \<Rightarrow> string \<Rightarrow> int" where
  "use_width_of [] data = - 1"
| "use_width_of ((colname, width) # rest) data =
     (if colname = data then width else use_width_of rest data)"

fun get_data_items :: "column_list_widget \<Rightarrow> list_item list \<Rightarrow> (string \<times> int) list" where
  "get_data_items w [] = []"
| "get_data_items w (item # rest) =
     (let data = strip (item_data item)
      in if checkState item = Checked \<or> data = ''ondevice''
         then (data, dict_get (saved_column_widths w) data
                       (use_width_of (all_columns_with_widths w) data))
              # get_data_items w rest
         else get_data_items w rest)"

definition get_data :: "column_list_widget \<Rightarrow> (string \<times> int) list" where
  "get_data w = get_data_items w (lw_items w)"

text \<open>
  \<^verbatim>\<open>move_column_up\<close> and \<^verbatim>\<open>move_column_down\<close>: the current item changes place with
  its neighbour. The current row of a list widget is always \<open>-1\<close> or a valid row.
\<close>

definition swap_rows :: "nat \<Rightarrow> nat \<Rightarrow> 'a list \<Rightarrow> 'a list" where
  "swap_rows i j xs = (xs[i := xs ! j])[j := xs ! i]"

definition move_column_up :: "column_list_widget \<Rightarrow> column_list_widget" where
  "move_column_up w =
     (let idx = currentRow w
      in if idx > 0 \<and> idx < int (length (lw_items w))
         then w\<lparr>lw_items := swap_rows (nat idx - 1) (nat idx) (lw_items w), currentRow := idx - 1\<rparr>
         else w)"

definition move_column_down :: "column_list_widget \<Rightarrow> column_list_widget" where
  "move_column_down w =
     (let idx = currentRow w
      in if 0 \<le> idx \<and> idx < int (length (lw_items w)) - 1
         then w\<lparr>lw_items := swap_rows (nat idx) (nat idx + 1) (lw_items w), currentRow := idx + 1\<rparr>
         else w)"

text \<open>
  What the user does to a list widget besides the buttons: making a row current, and
  ticking or clearing the box of an item that is user-checkable.
\<close>

definition setCurrentRow :: "int \<Rightarrow> column_list_widget \<Rightarrow> column_list_widget" where
  "setCurrentRow r w =
     w\<lparr>currentRow := (if 0 \<le> r \<and> r < int (length (lw_items w)) then r else - 1)\<rparr>"

definition user_sets_check :: "nat \<Rightarrow> check_state \<Rightarrow> column_list_widget \<Rightarrow> column_list_widget" where
  "user_sets_check i st w =
     (if i < length (lw_items w) \<and> user_checkable (lw_items w ! i)
      then w\<lparr>lw_items := (lw_items w)[i := (lw_items w ! i)\<lparr>check_role := Some st\<rparr>]\<rparr>
      else w)"

text \<open>\<^verbatim>\<open>SortColumnListWidget\<close>: the data of an item is \<^verbatim>\<open>col + '|' + str(asc)\<close>.\<close>

definition sort_populate_column ::
  "column_list_widget \<Rightarrow> string \<Rightarrow> int \<Rightarrow> bool \<Rightarrow> column_list_widget"
where
  "sort_populate_column w col asc is_checked =
     (let item = \<lparr>item_text = headers (widget_gui w) col,
                  item_data = col @ ''|'' @ str_int asc,
                  user_checkable = True,
                  check_role = Some (if is_checked then Checked else Unchecked)\<rparr>
      in w\<lparr>lw_items := lw_items w @ [item]\<rparr>)"

fun sort_populate_checked ::
  "column_list_widget \<Rightarrow> (string \<times> int) list \<Rightarrow> string list \<Rightarrow> column_list_widget \<times> string list"
where
  "sort_populate_checked w [] all_names = (w, all_names)"
| "sort_populate_checked w ((col, asc) # cols) all_names =
     (if col \<in> set all_names
      then sort_populate_checked (sort_populate_column w col asc True) cols (remove1 col all_names)
      else sort_populate_checked w cols all_names)"

definition sort_populate ::
  "column_list_widget \<Rightarrow> (string \<times> int) list \<Rightarrow> (string \<times> int) list \<Rightarrow> column_list_widget"
where
  "sort_populate w cols all_cols =
     (let (w2, rest) = sort_populate_checked (clear_list w) cols (map fst all_cols)
      in foldl (\<lambda>b col. sort_populate_column b col 0 False) w2 rest)"

definition change_sort :: "column_list_widget \<Rightarrow> int \<Rightarrow> column_list_widget" where
  "change_sort w asc =
     (let idx = currentRow w
      in if 0 \<le> idx \<and> idx < int (length (lw_items w))
         then (let item = lw_items w ! nat idx;
                   data = split_on CHR ''|'' (strip (item_data item));
                   col = hd data
               in w\<lparr>lw_items := (lw_items w)[nat idx := item\<lparr>item_data := col @ ''|'' @ str_int asc\<rparr>]\<rparr>)
         else w)"

text \<open>
  \<^verbatim>\<open>SortColumnListWidget.get_data\<close>. For a checked item, \<^verbatim>\<open>data[1]\<close> raises
  IndexError when the data holds no separator and \<^verbatim>\<open>int\<close> raises ValueError when the
  text after it is no integer; the first item that fails ends the loop.
\<close>

fun sort_get_data_items :: "list_item list \<Rightarrow> error + (string \<times> int) list" where
  "sort_get_data_items [] = Inr []"
| "sort_get_data_items (item # rest) =
     (let data = split_on CHR ''|'' (strip (item_data item))
      in if checkState item = Checked
         then (case data of
                 d0 # d1 # _ \<Rightarrow>
                   (case py_int d1 of
                      Inl e \<Rightarrow> Inl e
                    | Inr asc \<Rightarrow>
                        (case sort_get_data_items rest of
                           Inl e \<Rightarrow> Inl e
                         | Inr cols \<Rightarrow> Inr ((d0, asc) # cols)))
               | _ \<Rightarrow> Inl IndexError)
         else sort_get_data_items rest)"

definition sort_get_data :: "column_list_widget \<Rightarrow> error + (string \<times> int) list" where
  "sort_get_data w = sort_get_data_items (lw_items w)"

subsection \<open>The configuration dialog\<close>

text \<open>
  \<^verbatim>\<open>ConfigWidget\<close>. \<open>views\<close> is \<^verbatim>\<open>self.views\<close>, the views dictionary of the
  library record the dialog was opened on; a check box is its check state.
\<close>

record config_widget =
  gui_of :: gui
  views :: views_dict
  all_columns :: "(string \<times> int) list"
  view_name :: "string option"
  select_view_combo :: view_combo
  auto_view_combo :: view_combo
  columns_list :: column_list_widget
  sort_list :: column_list_widget
  apply_search_checkbox :: check_state
  saved_search_combo :: combo
  apply_restriction_checkbox :: check_state
  search_restriction_combo :: combo
  auto_apply_checkbox :: check_state

definition columns_state :: "gui \<Rightarrow> bool \<Rightarrow> view_state" where
  "columns_state g defaults = (if defaults then default_state g else current_state g)"

definition get_current_columns :: "gui \<Rightarrow> bool \<Rightarrow> bool \<Rightarrow> (string \<times> int) list" where
  "get_current_columns g defaults visible_only =
     (let state = columns_state g defaults;
          colmap = sort_key (column_positions state) (column_map g);
          hidden_cols = hidden_columns state;
          colmap' = (if visible_only
                     then filter (\<lambda>col. col \<notin> set hidden_cols \<or> col = ''ondevice'') colmap
                     else colmap)
      in map (\<lambda>col. if col \<in> set hidden_cols then (col, - 1)
                     else (col, dict_get (column_sizes state) col (- 1))) colmap')"

text \<open>\<^verbatim>\<open>if self.view_name:\<close> holds for a name that is neither None nor empty.\<close>

definition truthy :: "string option \<Rightarrow> bool" where
  "truthy n = (case n of None \<Rightarrow> False | Some s \<Rightarrow> s \<noteq> [])"

text \<open>
  \<^verbatim>\<open>persist_view_config\<close>. When an exception leaves the function, the model returns
  the exception alone.
\<close>

definition persist_view_config :: "config_widget \<Rightarrow> error + config_widget" where
  "persist_view_config S =
     (case view_name S of
        None \<Rightarrow> Inr S
      | Some vn \<Rightarrow>
          if vn = [] then Inr S
          else (case map_of (views S) vn of
                  None \<Rightarrow> Inl KeyError
                | Some view_info \<Rightarrow>
                    (case sort_get_data (sort_list S) of
                       Inl e \<Rightarrow> Inl e
                     | Inr sort_cols \<Rightarrow>
                         (let v1 = view_info\<lparr>key_columns := get_data (columns_list S),
                                             key_sort := sort_cols,
                                             key_apply_restriction :=
                                               (apply_restriction_checkbox S = Checked)\<rparr>;
                              v2 = (if key_apply_restriction v1
                                    then v1\<lparr>key_restriction :=
                                              strip (currentText (search_restriction_combo S))\<rparr>
                                    else v1\<lparr>key_restriction := ''''\<rparr>);
                              v3 = v2\<lparr>key_apply_search := (apply_search_checkbox S = Checked)\<rparr>;
                              v4 = (if key_apply_search v3
                                    then v3\<lparr>key_search := strip (currentText (saved_search_combo S))\<rparr>
                                    else v3\<lparr>key_search := ''''\<rparr>)
                          in Inr (S\<lparr>views := AList.update vn v4 (views S)\<rparr>)))))"

text \<open>
  The last six statements of \<^verbatim>\<open>select_view_combo_index_changed\<close>: the form controls
  are filled from the values chosen before.
\<close>

definition fill_form ::
  "config_widget \<Rightarrow> (string \<times> int) list \<Rightarrow> (string \<times> int) list \<Rightarrow> (string \<times> int) list \<Rightarrow>
   bool \<Rightarrow> string \<Rightarrow> bool \<Rightarrow> string \<Rightarrow> config_widget"
where
  "fill_form S cols sort_columns all_cols apply_restriction restriction_to_apply
       apply_search search_to_apply =
     S\<lparr>columns_list := populate (columns_list S) cols all_cols,
       sort_list := sort_populate (sort_list S) sort_columns all_cols,
       apply_restriction_checkbox := (if apply_restriction then Checked else Unchecked),
       search_restriction_combo := select_value (search_restriction_combo S) restriction_to_apply,
       apply_search_checkbox := (if apply_search then Checked else Unchecked),
       saved_search_combo := select_value (saved_search_combo S) search_to_apply\<rparr>"

definition select_view_combo_index_changed :: "bool \<Rightarrow> config_widget \<Rightarrow> error + config_widget" where
  "select_view_combo_index_changed save_previous S =
     (case (if save_previous then persist_view_config S else Inr S) of
        Inl e \<Rightarrow> Inl e
      | Inr S1 \<Rightarrow>
          (let vn = (if combo_count (select_view_combo S1) = 0 then None
                     else Some (strip (currentText (select_view_combo S1))));
               S2 = S1\<lparr>view_name := vn\<rparr>
           in case vn of
                None \<Rightarrow> Inr (fill_form S2 [] [] [] False '''' False '''')
              | Some n \<Rightarrow>
                  if n = [] then Inr (fill_form S2 [] [] [] False '''' False '''')
                  else (case map_of (views S2) n of
                          None \<Rightarrow> Inl KeyError
                        | Some view_info \<Rightarrow>
                            Inr (fill_form S2 (key_columns view_info) (key_sort view_info)
                                   (all_columns S2)
                                   (key_apply_restriction view_info) (key_restriction view_info)
                                   (key_apply_search view_info) (key_search view_info)))))"

text \<open>
  What a handler shows besides changing the dialog: nothing, or the modal error
  dialog with its title and message.
\<close>

datatype feedback = Silent | Error_dialog string string

text \<open>
  \<^verbatim>\<open>add_view\<close>. \<open>text\<close> and \<open>ok\<close> are what \<^verbatim>\<open>QInputDialog.getText\<close> returns.
\<close>

definition add_view :: "string \<Rightarrow> bool \<Rightarrow> config_widget \<Rightarrow> error + (feedback \<times> config_widget)" where
  "add_view text ok S =
     (if \<not> ok then Inr (Silent, S)
      else
        (let new_view_name = strip text
         in if list_ex (\<lambda>vn. lower vn = lower new_view_name) (map fst (views S))
            then Inr (Error_dialog ''Add Failed'' ''A view with the same name already exists'', S)
            else
              (case persist_view_config S of
                 Inl e \<Rightarrow> Inl e
               | Inr S1 \<Rightarrow>
                   (case (if truthy (view_name S1)
                          then (case map_of (views S1) (case view_name S1 of Some vn \<Rightarrow> vn | None \<Rightarrow> [])
                                of None \<Rightarrow> Inl KeyError
                                 | Some old_view_info \<Rightarrow>
                                     Inr \<lparr>key_columns = key_columns old_view_info,
                                          key_sort = key_sort old_view_info,
                                          key_apply_restriction = key_apply_restriction old_view_info,
                                          key_restriction = key_restriction old_view_info,
                                          key_apply_search = key_apply_search old_view_info,
                                          key_search = key_search old_view_info\<rparr>)
                          else Inr \<lparr>key_columns = get_current_columns (gui_of S1) False True,
                                    key_sort = [],
                                    key_apply_restriction = False, key_restriction = '''',
                                    key_apply_search = False, key_search = ''''\<rparr>)
                    of Inl e \<Rightarrow> Inl e
                     | Inr view_info \<Rightarrow>
                         (let S2 = S1\<lparr>view_name := Some new_view_name,
                                      views := AList.update new_view_name view_info (views S1)\<rparr>;
                              S3 = S2\<lparr>select_view_combo :=
                                        populate_combo (select_view_combo S2) (views S2)
                                          (Some new_view_name)\<rparr>
                          in case select_view_combo_index_changed False S3 of
                               Inl e \<Rightarrow> Inl e
                             | Inr S4 \<Rightarrow>
                                 Inr (Silent,
                                      S4\<lparr>auto_view_combo :=
                                           populate_combo (auto_view_combo S4) (views S4)
                                             (Some (currentText (auto_view_combo S4)))\<rparr>))))))"



text \<open>
  \<^verbatim>\<open>ConfigWidget.__init__\<close>, from the host, the library record returned by
  \<open>get_library_config\<close> and the views dictionary that record refers to.
\<close>

definition new_ConfigWidget :: "gui \<Rightarrow> library_config \<Rightarrow> views_dict \<Rightarrow> error + config_widget" where
  "new_ConfigWidget g library vs =
     (let S0 = \<lparr>gui_of = g, views = vs,
                all_columns = get_current_columns g False False,
                view_name = None,
                select_view_combo = new_ViewComboBox vs False,
                auto_view_combo =
                  select_view (new_ViewComboBox vs True) (Some (key_view_to_apply library)),
                columns_list = new_ColumnListWidget g,
                sort_list = new_ColumnListWidget g,
                apply_search_checkbox = Unchecked,
                saved_search_combo = new_SearchComboBox g,
                apply_restriction_checkbox = Unchecked,
                search_restriction_combo = new_SearchComboBox g,
                auto_apply_checkbox =
                  (if key_auto_apply_view library then Checked else Unchecked)\<rparr>;
          S1 = (if key_last_view library \<in> set (map fst vs)
                then S0\<lparr>select_view_combo :=
                          select_view (select_view_combo S0) (Some (key_last_view library))\<rparr>
                else S0)
      in select_view_combo_index_changed False S1)"

subsection \<open>Observations on the library records\<close>

definition stored_record :: "env \<Rightarrow> addr \<Rightarrow> library_config" where
  "stored_record e a = configs (heap_of e) ! a"

definition stored_views :: "env \<Rightarrow> addr \<Rightarrow> views_dict" where
  "stored_views e a = viewdicts (heap_of e) ! key_views (stored_record e a)"

text \<open>
  The module-level defaults hold the values the module gave them: nothing has
  written through \<^verbatim>\<open>DEFAULT_LIBRARY_VALUES\<close> or its views dictionary.
\<close>

definition defaults_intact :: "env \<Rightarrow> bool" where
  "defaults_intact e =
     (DEFAULT_LIBRARY_VALUES < length (configs (heap_of e))
      \<and> stored_record e DEFAULT_LIBRARY_VALUES = default_library_record
      \<and> key_views default_library_record < length (viewdicts (heap_of e))
      \<and> viewdicts (heap_of e) ! key_views default_library_record = [])"

text \<open>
  A library with no stored configuration: nothing under the plugin's namespace in
  its database preferences and no entry for it in the legacy file.
\<close>

definition no_stored_config :: "env \<Rightarrow> db \<Rightarrow> bool" where
  "no_stored_config e d =
     (map_of (prefs d) (namespaced_key PREFS_NAMESPACE PREFS_KEY_SETTINGS) = None
      \<and> (case plugin_prefs_libraries e of
            None \<Rightarrow> True
          | Some libraries \<Rightarrow> map_of libraries (get_library_uuid d) = None))"

text \<open>
  Any in-place change of the record at \<open>a\<close> and of the views dictionary it refers
  to: the fields are overwritten with those of \<open>lc\<close> and the dictionary with \<open>vd\<close>.
\<close>

definition mutate_record :: "env \<Rightarrow> addr \<Rightarrow> library_config \<Rightarrow> views_dict \<Rightarrow> env" where
  "mutate_record e a lc vd =
     (let h = heap_of e
      in e\<lparr>heap_of := \<lparr>configs = (configs h)[a := lc\<lparr>key_views := key_views (configs h ! a)\<rparr>],
                        viewdicts = (viewdicts h)[key_views (configs h ! a) := vd]\<rparr>\<rparr>)"

text \<open>The record at \<open>a\<close> holds the default values of the four library-level fields.\<close>

definition is_default_config :: "env \<Rightarrow> addr \<Rightarrow> bool" where
  "is_default_config e a =
     (stored_views e a = []
      \<and> key_last_view (stored_record e a) = []
      \<and> \<not> key_auto_apply_view (stored_record e a)
      \<and> key_view_to_apply (stored_record e a) = LAST_VIEW_ITEM)"

subsection \<open>View names\<close>



text \<open>
  How \<open>populate_column\<close> makes the items of the columns list: the item of the
  column \<^verbatim>\<open>ondevice\<close> is not user-checkable and has no check state, every other
  item is user-checkable and has one.
\<close>

definition ondevice_plain :: "list_item \<Rightarrow> bool" where
  "ondevice_plain item =
     (if item_data item = ''ondevice'' then \<not> user_checkable item \<and> check_role item = None
      else user_checkable item \<and> check_role item \<noteq> None)"

subsection \<open>Concrete states\<close>

text \<open>
  The environment right after the module is loaded with no legacy file, one with a
  legacy file that holds no library any more, and a library database that stores
  nothing yet.
\<close>

definition initial_env :: env where
  "initial_env = \<lparr>heap_of = initial_heap, json_exists = False, plugin_prefs_libraries = None\<rparr>"

definition legacy_env :: env where
  "legacy_env = \<lparr>heap_of = initial_heap, json_exists = True, plugin_prefs_libraries = None\<rparr>"

definition fresh_db :: "string \<Rightarrow> db" where
  "fresh_db uuid = \<lparr>library_uuid = uuid, prefs = [], prefs_writes = 0\<rparr>"

definition edited_record :: library_config where
  "edited_record =
     \<lparr>key_views = 0, key_last_view = ''Reading'', key_auto_apply_view = True,
      key_view_to_apply = ''Reading'', key_schema_version = Some DEFAULT_SCHEMA_VERSION\<rparr>"

definition reading_view :: view_info where
  "reading_view =
     \<lparr>key_columns = [(''title'', 200), (''authors'', 120)],
      key_sort = [(''title'', 0)],
      key_apply_restriction = False, key_restriction = '''',
      key_apply_search = False, key_search = ''''\<rparr>"

text \<open>
  A host with four columns, one of them hidden, and two saved searches; the dialog
  opened on a library that has no view yet; sequencing of handlers that may raise.
\<close>

definition example_state :: view_state where
  "example_state =
     \<lparr>column_positions =
        (\<lambda>col. case map_of [(''title'', 0), (''authors'', 1), (''ondevice'', 2), (''series'', 3)] col of
                  Some p \<Rightarrow> p | None \<Rightarrow> 0),
      hidden_columns = [''series''],
      column_sizes = [(''title'', 200), (''authors'', 120)]\<rparr>"

definition example_gui :: gui where
  "example_gui =
     \<lparr>headers = (\<lambda>col. col),
      column_map = [''authors'', ''title'', ''ondevice'', ''series''],
      current_state = example_state,
      default_state = example_state,
      saved_search_names = [''Unread'', ''Anthologies''],
      icu_sort_key = lower\<rparr>"

definition and_then :: "error + 'a \<Rightarrow> ('a \<Rightarrow> error + 'b) \<Rightarrow> error + 'b" where
  "and_then r f = (case r of Inl e \<Rightarrow> Inl e | Inr x \<Rightarrow> f x)"

definition dropped :: "error + (feedback \<times> config_widget) \<Rightarrow> error + config_widget" where
  "dropped r = (case r of Inl e \<Rightarrow> Inl e | Inr (fb, S) \<Rightarrow> Inr S)"

definition fresh_dialog :: "error + config_widget" where
  "fresh_dialog = new_ConfigWidget example_gui default_library_record []"




text \<open>
  The dialog a handler left behind, or an empty dialog when it raised; the dialog
  after the views Reading and Travel were added to a new library.
\<close>

definition blank_dialog :: config_widget where
  "blank_dialog =
     \<lparr>gui_of = example_gui, views = [], all_columns = [], view_name = None,
      select_view_combo = \<lparr>combo_items = [], currentIndex = - 1, special = False\<rparr>,
      auto_view_combo = \<lparr>combo_items = [], currentIndex = - 1, special = True\<rparr>,
      columns_list = new_ColumnListWidget example_gui,
      sort_list = new_ColumnListWidget example_gui,
      apply_search_checkbox = Unchecked,
      saved_search_combo = \<lparr>combo_items = [], currentIndex = - 1\<rparr>,
      apply_restriction_checkbox = Unchecked,
      search_restriction_combo = \<lparr>combo_items = [], currentIndex = - 1\<rparr>,
      auto_apply_checkbox = Unchecked\<rparr>"

definition returned :: "error + config_widget \<Rightarrow> config_widget" where
  "returned r = (case r of Inl e \<Rightarrow> blank_dialog | Inr S \<Rightarrow> S)"

definition two_views_dialog :: config_widget where
  "two_views_dialog =
     returned (dropped (add_view ''Travel'' True
       (returned (dropped (add_view ''Reading'' True (returned fresh_dialog))))))"




definition stale_filter_dialog :: config_widget where
  "stale_filter_dialog =
     two_views_dialog\<lparr>search_restriction_combo :=
        setCurrentIndex 2 (search_restriction_combo two_views_dialog)\<rparr>"

section \<open>Properties\<close>

subsection \<open>Dictionaries, combo boxes and what the handlers leave alone\<close>



lemma map_of_None_iff: "map_of al k = None \<longleftrightarrow> k \<notin> fst ` set al"
  by (simp add: map_of_eq_None_iff)



lemma persist_frame:
  assumes "persist_view_config S = Inr S'"
  shows "S' = S\<lparr>views := views S'\<rparr>"
  using assms
  by (auto simp: persist_view_config_def Let_def split: option.splits if_splits sum.splits)

lemma fill_form_views [simp]:
  "views (fill_form S a b c d e f g) = views S"
  "select_view_combo (fill_form S a b c d e f g) = select_view_combo S"
  "auto_view_combo (fill_form S a b c d e f g) = auto_view_combo S"
  "view_name (fill_form S a b c d e f g) = view_name S"
  "all_columns (fill_form S a b c d e f g) = all_columns S"
  "gui_of (fill_form S a b c d e f g) = gui_of S"
  by (simp_all add: fill_form_def)


lemma addItem_simps [simp]:
  "combo_items (addItem s c) = combo_items c @ [s]"
  "special (addItem s b) = special b"
  by (simp_all add: addItem_def)

lemma clear_combo_simps [simp]:
  "combo_items (clear_combo c) = []"
  "special (clear_combo b) = special b"
  by (simp_all add: clear_combo_def)

lemma setCurrentIndex_simps [simp]:
  "combo_items (setCurrentIndex i c) = combo_items c"
  "special (setCurrentIndex i b) = special b"
  by (simp_all add: setCurrentIndex_def)

lemma foldl_addItem_items [simp]:
  "combo_items (foldl (\<lambda>b n. addItem n b) c ns) = combo_items c @ ns"
  by (induction ns arbitrary: c) simp_all

lemma foldl_addItem_special [simp]:
  "special (foldl (\<lambda>b n. addItem n b) c ns) = special c"
  by (induction ns arbitrary: c) simp_all

lemma select_view_simps [simp]:
  "combo_items (select_view c t) = combo_items c"
  "special (select_view c t) = special c"
  by (simp_all add: select_view_def split: option.splits)


lemma populate_combo_special [simp]: "special (populate_combo c vs t) = special c"
  by (simp add: populate_combo_def Let_def)

subsection \<open>Migration of the legacy preferences file\<close>

text \<open>
  Claim C4. The migration of the legacy preferences file is idempotent. When no
  legacy file exists a run changes nothing; once a run has removed the file, every
  later run changes nothing, and a run repeated with the same outcome of the removal
  changes nothing more. A run removes the file only when \<^verbatim>\<open>'libraries'\<close> is no longer
  in the legacy preferences and the removal succeeds; while \<^verbatim>\<open>'libraries'\<close> is
  present the file stays. A removal that fails is ignored: the function returns and
  the state is what it was.
\<close>

theorem migrate_json_config_idempotent:
  "(\<not> json_exists e \<longrightarrow> migrate_json_config_if_required r e = e)
   \<and> (\<not> json_exists (migrate_json_config_if_required r e) \<longrightarrow>
        migrate_json_config_if_required r' (migrate_json_config_if_required r e)
          = migrate_json_config_if_required r e)
   \<and> migrate_json_config_if_required r (migrate_json_config_if_required r e)
        = migrate_json_config_if_required r e
   \<and> (json_exists e \<and> \<not> json_exists (migrate_json_config_if_required r e) \<longrightarrow>
        plugin_prefs_libraries e = None \<and> r)
   \<and> (plugin_prefs_libraries e \<noteq> None \<longrightarrow> migrate_json_config_if_required r e = e)
   \<and> (json_exists e \<and> plugin_prefs_libraries e = None \<longrightarrow>
        migrate_json_config_if_required True e = e\<lparr>json_exists := False\<rparr>)
   \<and> migrate_json_config_if_required False e = e"
  by (simp add: migrate_json_config_if_required_def)

theorem migrate_json_config_idempotent_witness:
  "json_exists legacy_env \<and> plugin_prefs_libraries legacy_env = None
   \<and> migrate_json_config_if_required True legacy_env = legacy_env\<lparr>json_exists := False\<rparr>
   \<and> \<not> json_exists (migrate_json_config_if_required True legacy_env)
   \<and> migrate_json_config_if_required False (migrate_json_config_if_required True legacy_env)
       = migrate_json_config_if_required True legacy_env
   \<and> migrate_json_config_if_required False legacy_env = legacy_env
   \<and> migrate_json_config_if_required True initial_env = initial_env"
proof -
  have h: "json_exists legacy_env \<and> plugin_prefs_libraries legacy_env = None"
    by (simp add: legacy_env_def)
  have n: "\<not> json_exists initial_env"
    by (simp add: initial_env_def)
  note a = migrate_json_config_idempotent [of legacy_env True False]
  note b = migrate_json_config_idempotent [of initial_env True True]
  have del: "migrate_json_config_if_required True legacy_env = legacy_env\<lparr>json_exists := False\<rparr>"
    using a h by blast
  have gone: "\<not> json_exists (migrate_json_config_if_required True legacy_env)"
    by (simp add: del)
  show ?thesis
    using a b h n del gone by blast
qed

subsection \<open>Schema migration\<close>

text \<open>
  Claim C5. The schema migration changes and persists a stale record exactly once.
  A record whose SchemaVersion already is the current default, 1.5, is left as it
  is and nothing is written to the preferences store. Any other record gets
  SchemaVersion 1.5 with its other fields kept, is written to the store once under
  the plugin's namespace, and a second run on it changes neither the record nor the
  store.
\<close>

theorem migrate_library_config_once:
  "(key_schema_version (stored_record e a) = Some DEFAULT_SCHEMA_VERSION \<longrightarrow>
      migrate_library_config_if_required e d a = (e, d))
   \<and> (a < length (configs (heap_of e)) \<and>
       key_schema_version (stored_record e a) \<noteq> Some DEFAULT_SCHEMA_VERSION \<longrightarrow>
       (case migrate_library_config_if_required e d a of (e', d') \<Rightarrow>
          stored_record e' a = (stored_record e a)\<lparr>key_schema_version := Some DEFAULT_SCHEMA_VERSION\<rparr>
          \<and> d' = set_library_config d a
          \<and> prefs_writes d' = Suc (prefs_writes d)
          \<and> map_of (prefs d') (namespaced_key PREFS_NAMESPACE PREFS_KEY_SETTINGS) = Some a
          \<and> migrate_library_config_if_required e' d' a = (e', d')))"
proof (intro conjI impI)
  assume "key_schema_version (stored_record e a) = Some DEFAULT_SCHEMA_VERSION"
  then show "migrate_library_config_if_required e d a = (e, d)"
    by (simp add: migrate_library_config_if_required_def stored_record_def)
next
  assume h: "a < length (configs (heap_of e)) \<and>
       key_schema_version (stored_record e a) \<noteq> Some DEFAULT_SCHEMA_VERSION"
  have ne: "(case key_schema_version (configs (heap_of e) ! a) of None \<Rightarrow> 0 | Some v \<Rightarrow> v)
              \<noteq> DEFAULT_SCHEMA_VERSION"
    using h by (cases "key_schema_version (configs (heap_of e) ! a)")
      (simp_all add: stored_record_def DEFAULT_SCHEMA_VERSION_def)
  show "case migrate_library_config_if_required e d a of (e', d') \<Rightarrow>
          stored_record e' a = (stored_record e a)\<lparr>key_schema_version := Some DEFAULT_SCHEMA_VERSION\<rparr>
          \<and> d' = set_library_config d a
          \<and> prefs_writes d' = Suc (prefs_writes d)
          \<and> map_of (prefs d') (namespaced_key PREFS_NAMESPACE PREFS_KEY_SETTINGS) = Some a
          \<and> migrate_library_config_if_required e' d' a = (e', d')"
    using h ne
    by (simp add: migrate_library_config_if_required_def stored_record_def Let_def
        set_library_config_def set_namespaced_def update_Some_unfold)
qed

theorem migrate_library_config_once_witness:
  "DEFAULT_LIBRARY_VALUES < length (configs (heap_of initial_env))
   \<and> key_schema_version (stored_record initial_env DEFAULT_LIBRARY_VALUES) = None
   \<and> (case migrate_library_config_if_required initial_env (fresh_db ''lib-1'') DEFAULT_LIBRARY_VALUES of
        (e', d') \<Rightarrow>
          key_schema_version (stored_record e' DEFAULT_LIBRARY_VALUES) = Some DEFAULT_SCHEMA_VERSION
          \<and> prefs_writes d' = 1
          \<and> migrate_library_config_if_required e' d' DEFAULT_LIBRARY_VALUES = (e', d'))"
proof -
  have h: "DEFAULT_LIBRARY_VALUES < length (configs (heap_of initial_env))
       \<and> key_schema_version (stored_record initial_env DEFAULT_LIBRARY_VALUES) \<noteq> Some DEFAULT_SCHEMA_VERSION"
    by (simp add: initial_env_def initial_heap_def DEFAULT_LIBRARY_VALUES_def stored_record_def
        default_library_record_def)
  have n: "key_schema_version (stored_record initial_env DEFAULT_LIBRARY_VALUES) = None"
    by (simp add: initial_env_def initial_heap_def DEFAULT_LIBRARY_VALUES_def stored_record_def
        default_library_record_def)
  have w: "prefs_writes (fresh_db ''lib-1'') = 0"
    by (simp add: fresh_db_def)
  show ?thesis
    using migrate_library_config_once [of initial_env DEFAULT_LIBRARY_VALUES "fresh_db ''lib-1''"] h n w
    by (auto split: prod.splits)
qed

subsection \<open>First access to a library\<close>

lemma get_library_config_fresh:
  assumes "no_stored_config e d"
  shows "get_library_config e d =
     (let h = heap_of e;
          a = length (configs h);
          c = configs h ! DEFAULT_LIBRARY_VALUES;
          h' = \<lparr>configs = configs h @ [c\<lparr>key_views := length (viewdicts h),
                                        key_schema_version := Some DEFAULT_SCHEMA_VERSION\<rparr>],
                viewdicts = viewdicts h @ [viewdicts h ! key_views c]\<rparr>
      in if key_schema_version c = Some DEFAULT_SCHEMA_VERSION
         then ((e\<lparr>heap_of := \<lparr>configs = configs h @ [c\<lparr>key_views := length (viewdicts h)\<rparr>],
                viewdicts = viewdicts h @ [viewdicts h ! key_views c]\<rparr>\<rparr>, d), a)
         else ((e\<lparr>heap_of := h'\<rparr>, set_library_config d a), a))"
proof -
  have np: "map_of (prefs d) (namespaced_key PREFS_NAMESPACE PREFS_KEY_SETTINGS) = None"
    using assms by (simp add: no_stored_config_def)
  have ne: "(case key_schema_version c of None \<Rightarrow> 0 | Some v \<Rightarrow> v) = DEFAULT_SCHEMA_VERSION
     \<longleftrightarrow> key_schema_version c = Some DEFAULT_SCHEMA_VERSION" for c :: library_config
    by (cases "key_schema_version c") (simp_all add: DEFAULT_SCHEMA_VERSION_def)
  show ?thesis
  proof (cases "plugin_prefs_libraries e")
    case None
    then show ?thesis
      using np
      by (simp add: get_library_config_def deepcopy_def get_namespaced_def Let_def
          migrate_library_config_if_required_def ne)
  next
    case (Some libs)
    then have "map_of libs (get_library_uuid d) = None"
      using assms by (simp add: no_stored_config_def)
    then show ?thesis
      using np Some
      by (simp add: get_library_config_def deepcopy_def get_namespaced_def Let_def
          migrate_library_config_if_required_def ne)
  qed
qed


lemma defaults_intact_fresh:
  assumes "defaults_intact e" "no_stored_config e d"
  shows "get_library_config e d =
     ((e\<lparr>heap_of := \<lparr>configs = configs (heap_of e) @
                          [default_library_record\<lparr>key_views := length (viewdicts (heap_of e)),
                                key_schema_version := Some DEFAULT_SCHEMA_VERSION\<rparr>],
                      viewdicts = viewdicts (heap_of e) @ [[]]\<rparr>\<rparr>,
       set_library_config d (length (configs (heap_of e)))),
      length (configs (heap_of e)))"
  using assms(1)
  by (simp add: get_library_config_fresh [OF assms(2)] defaults_intact_def stored_record_def
      stored_views_def Let_def default_library_record_def)

lemma defaults_intact_mutate:
  assumes "defaults_intact e" "a \<noteq> DEFAULT_LIBRARY_VALUES" "a < length (configs (heap_of e))"
    "key_views (stored_record e a) \<noteq> key_views default_library_record"
  shows "defaults_intact (mutate_record e a lc vd)"
  using assms
  by (simp add: defaults_intact_def mutate_record_def stored_record_def stored_views_def Let_def)

lemma fresh_is_default:
  assumes "defaults_intact e" and "no_stored_config e d"
  shows "fst (fst (get_library_config e d)) =
           e\<lparr>heap_of := \<lparr>configs = configs (heap_of e) @
                          [default_library_record\<lparr>key_views := length (viewdicts (heap_of e)),
                                key_schema_version := Some DEFAULT_SCHEMA_VERSION\<rparr>],
                      viewdicts = viewdicts (heap_of e) @ [[]]\<rparr>\<rparr>"
    and "snd (get_library_config e d) = length (configs (heap_of e))"
    and "is_default_config (fst (fst (get_library_config e d))) (snd (get_library_config e d))"
    and "defaults_intact (fst (fst (get_library_config e d)))"
proof -
  have pos: "0 < length (configs (heap_of e))" "0 < length (viewdicts (heap_of e))"
    using assms(1)
    by (simp_all add: defaults_intact_def DEFAULT_LIBRARY_VALUES_def default_library_record_def)
  show "fst (fst (get_library_config e d)) =
           e\<lparr>heap_of := \<lparr>configs = configs (heap_of e) @
                          [default_library_record\<lparr>key_views := length (viewdicts (heap_of e)),
                                key_schema_version := Some DEFAULT_SCHEMA_VERSION\<rparr>],
                      viewdicts = viewdicts (heap_of e) @ [[]]\<rparr>\<rparr>"
    by (simp add: defaults_intact_fresh [OF assms])
  show "snd (get_library_config e d) = length (configs (heap_of e))"
    by (simp add: defaults_intact_fresh [OF assms])
  show "is_default_config (fst (fst (get_library_config e d))) (snd (get_library_config e d))"
    by (simp add: defaults_intact_fresh [OF assms] is_default_config_def stored_views_def
        stored_record_def default_library_record_def)
  show "defaults_intact (fst (fst (get_library_config e d)))"
    using assms(1) pos
    by (simp add: defaults_intact_fresh [OF assms] defaults_intact_def stored_record_def
        nth_append DEFAULT_LIBRARY_VALUES_def default_library_record_def)
qed

text \<open>
  Claim C8. For a library with no stored configuration, \<open>get_library_config\<close>
  returns a fresh record, an object that did not exist before and is not the
  module's \<^verbatim>\<open>DEFAULT_LIBRARY_VALUES\<close>, whose views dictionary is a fresh empty one,
  whose lastView is the empty string, whose autoApplyView is false and whose
  viewToApply is the sentinel. The schema migration, which runs on it before it is
  returned, has added SchemaVersion 1.5. The module's defaults are untouched, they
  stay untouched whatever is written afterwards into the returned record and its
  views dictionary, and so another library with no stored configuration gets the
  same default values in a further object of its own.
\<close>

theorem get_library_config_fresh_defaults:
  assumes "defaults_intact e" and "no_stored_config e d"
  shows "case get_library_config e d of
           ((e', d'), a) \<Rightarrow>
             a \<noteq> DEFAULT_LIBRARY_VALUES
             \<and> a = length (configs (heap_of e))
             \<and> key_views (stored_record e' a) = length (viewdicts (heap_of e))
             \<and> is_default_config e' a
             \<and> key_schema_version (stored_record e' a) = Some DEFAULT_SCHEMA_VERSION
             \<and> defaults_intact e'
             \<and> (\<forall>lc vd d2. no_stored_config e' d2 \<longrightarrow>
                  defaults_intact (mutate_record e' a lc vd)
                  \<and> (case get_library_config (mutate_record e' a lc vd) d2 of
                        ((e2, d2'), a2) \<Rightarrow> a2 \<noteq> a \<and> is_default_config e2 a2))"
proof -
  obtain e' d' a where g: "get_library_config e d = ((e', d'), a)"
    by (metis surj_pair)
  have e': "e' = e\<lparr>heap_of := \<lparr>configs = configs (heap_of e) @
                          [default_library_record\<lparr>key_views := length (viewdicts (heap_of e)),
                                key_schema_version := Some DEFAULT_SCHEMA_VERSION\<rparr>],
                      viewdicts = viewdicts (heap_of e) @ [[]]\<rparr>\<rparr>"
    using fresh_is_default(1) [OF assms] g by simp
  have a: "a = length (configs (heap_of e))"
    using fresh_is_default(2) [OF assms] g by simp
  have dflt: "is_default_config e' a"
    using fresh_is_default(3) [OF assms] g by simp
  have intact: "defaults_intact e'"
    using fresh_is_default(4) [OF assms] g by simp
  have pos: "0 < length (configs (heap_of e))" "0 < length (viewdicts (heap_of e))"
    using assms(1)
    by (simp_all add: defaults_intact_def DEFAULT_LIBRARY_VALUES_def default_library_record_def)
  have a0: "a \<noteq> DEFAULT_LIBRARY_VALUES"
    using pos a by (simp add: DEFAULT_LIBRARY_VALUES_def)
  have rec: "stored_record e' a = default_library_record\<lparr>key_views := length (viewdicts (heap_of e)),
                                key_schema_version := Some DEFAULT_SCHEMA_VERSION\<rparr>"
    by (simp add: stored_record_def e' a)
  have kv: "key_views (stored_record e' a) = length (viewdicts (heap_of e))"
    by (simp add: rec)
  have sv: "key_schema_version (stored_record e' a) = Some DEFAULT_SCHEMA_VERSION"
    by (simp add: rec)
  have mut: "defaults_intact (mutate_record e' a lc vd)" for lc vd
  proof (rule defaults_intact_mutate [OF intact a0])
    show "a < length (configs (heap_of e'))" by (simp add: e' a)
    show "key_views (stored_record e' a) \<noteq> key_views default_library_record"
      using pos by (simp add: kv default_library_record_def)
  qed
  have other: "case get_library_config (mutate_record e' a lc vd) d2 of
                 ((e2, d2'), a2) \<Rightarrow> a2 \<noteq> a \<and> is_default_config e2 a2"
    if n: "no_stored_config e' d2" for lc vd d2
  proof -
    let ?m = "mutate_record e' a lc vd"
    have n': "no_stored_config ?m d2"
      using n by (simp add: no_stored_config_def mutate_record_def Let_def)
    have len: "length (configs (heap_of ?m)) = Suc a"
      by (simp add: mutate_record_def Let_def e' a)
    obtain e2 d2' a2 where g2: "get_library_config ?m d2 = ((e2, d2'), a2)"
      by (metis surj_pair)
    have "a2 = Suc a"
      using fresh_is_default(2) [OF mut n'] g2 len by simp
    moreover have "is_default_config e2 a2"
      using fresh_is_default(3) [OF mut n'] g2 by simp
    ultimately show ?thesis by (simp add: g2)
  qed
  show ?thesis
    using a0 a kv dflt sv intact mut other by (simp add: g)
qed

lemma initial_intact: "defaults_intact initial_env"
  by (simp add: defaults_intact_def initial_env_def initial_heap_def stored_record_def
      DEFAULT_LIBRARY_VALUES_def default_library_record_def)

lemma fresh_no_stored: "no_stored_config e (fresh_db u) \<longleftrightarrow>
    (case plugin_prefs_libraries e of None \<Rightarrow> True | Some libraries \<Rightarrow> map_of libraries u = None)"
  by (simp add: no_stored_config_def fresh_db_def get_library_uuid_def split: option.splits)

theorem get_library_config_fresh_defaults_witness:
  "defaults_intact initial_env \<and> no_stored_config initial_env (fresh_db ''lib-1'')
   \<and> (case get_library_config initial_env (fresh_db ''lib-1'') of
           ((e', d'), a) \<Rightarrow>
             a \<noteq> DEFAULT_LIBRARY_VALUES
             \<and> is_default_config e' a
             \<and> key_schema_version (stored_record e' a) = Some DEFAULT_SCHEMA_VERSION
             \<and> defaults_intact (mutate_record e' a edited_record [(''Reading'', reading_view)])
             \<and> (case get_library_config
                        (mutate_record e' a edited_record [(''Reading'', reading_view)])
                        (fresh_db ''lib-2'') of
                   ((e2, d2'), a2) \<Rightarrow> a2 \<noteq> a \<and> is_default_config e2 a2))"
proof -
  have n1: "no_stored_config initial_env (fresh_db ''lib-1'')"
    by (simp add: fresh_no_stored initial_env_def)
  obtain e' d' a where g: "get_library_config initial_env (fresh_db ''lib-1'') = ((e', d'), a)"
    by (metis surj_pair)
  have "plugin_prefs_libraries e' = None"
    using fresh_is_default(1) [OF initial_intact n1] g by (simp add: initial_env_def)
  then have n2: "no_stored_config e' (fresh_db ''lib-2'')"
    by (simp add: fresh_no_stored)
  have t: "a \<noteq> DEFAULT_LIBRARY_VALUES
             \<and> a = length (configs (heap_of initial_env))
             \<and> key_views (stored_record e' a) = length (viewdicts (heap_of initial_env))
             \<and> is_default_config e' a
             \<and> key_schema_version (stored_record e' a) = Some DEFAULT_SCHEMA_VERSION
             \<and> defaults_intact e'
             \<and> (\<forall>lc vd d2. no_stored_config e' d2 \<longrightarrow>
                  defaults_intact (mutate_record e' a lc vd)
                  \<and> (case get_library_config (mutate_record e' a lc vd) d2 of
                        ((e2, d2'), a2) \<Rightarrow> a2 \<noteq> a \<and> is_default_config e2 a2))"
    using get_library_config_fresh_defaults [OF initial_intact n1] unfolding g prod.case
    by blast
  note rest = t [THEN conjunct2, THEN conjunct2, THEN conjunct2]
  note all = rest [THEN conjunct2, THEN conjunct2, THEN conjunct2]
  have m: "defaults_intact (mutate_record e' a edited_record [(''Reading'', reading_view)])
      \<and> (case get_library_config (mutate_record e' a edited_record [(''Reading'', reading_view)])
                 (fresh_db ''lib-2'') of
            ((e2, d2'), a2) \<Rightarrow> a2 \<noteq> a \<and> is_default_config e2 a2)"
    by (rule all [rule_format, OF n2])
  show ?thesis
    unfolding g prod.case
    using t [THEN conjunct1] rest [THEN conjunct1] rest [THEN conjunct2, THEN conjunct1]
      m initial_intact n1
    by (intro conjI) (erule conjunct1 conjunct2 | assumption)+
qed

subsection \<open>View names\<close>

























subsection \<open>Deleting a view\<close>












subsection \<open>Persisting the form\<close>

text \<open>
  Claim C9. After \<open>persist_view_config\<close> has run on the selected view, the stored
  definition of that view has the two flags of the check boxes, an empty
  restrictionToApply when the apply-restriction flag is false and an empty
  searchToApply when the apply-search flag is false; an enabled filter holds the
  stripped text of its combo box. The function raises only when the selected name is
  not in the views mapping or when reading the sort list raises.
\<close>

theorem persist_blanks_disabled_filters:
  "view_name S = Some v \<and> v \<noteq> [] \<longrightarrow>
   (case persist_view_config S of
      Inl e \<Rightarrow> (map_of (views S) v = None \<and> e = KeyError) \<or> sort_get_data (sort_list S) = Inl e
    | Inr S' \<Rightarrow>
        (case map_of (views S') v of
           None \<Rightarrow> False
         | Some vi \<Rightarrow>
             key_apply_restriction vi = (apply_restriction_checkbox S = Checked)
             \<and> key_apply_search vi = (apply_search_checkbox S = Checked)
             \<and> (\<not> key_apply_restriction vi \<longrightarrow> key_restriction vi = [])
             \<and> (\<not> key_apply_search vi \<longrightarrow> key_search vi = [])
             \<and> (key_apply_restriction vi \<longrightarrow>
                  key_restriction vi = strip (currentText (search_restriction_combo S)))
             \<and> (key_apply_search vi \<longrightarrow>
                  key_search vi = strip (currentText (saved_search_combo S)))))"
proof (rule impI)
  assume a: "view_name S = Some v \<and> v \<noteq> []"
  show "case persist_view_config S of
      Inl e \<Rightarrow> (map_of (views S) v = None \<and> e = KeyError) \<or> sort_get_data (sort_list S) = Inl e
    | Inr S' \<Rightarrow>
        (case map_of (views S') v of
           None \<Rightarrow> False
         | Some vi \<Rightarrow>
             key_apply_restriction vi = (apply_restriction_checkbox S = Checked)
             \<and> key_apply_search vi = (apply_search_checkbox S = Checked)
             \<and> (\<not> key_apply_restriction vi \<longrightarrow> key_restriction vi = [])
             \<and> (\<not> key_apply_search vi \<longrightarrow> key_search vi = [])
             \<and> (key_apply_restriction vi \<longrightarrow>
                  key_restriction vi = strip (currentText (search_restriction_combo S)))
             \<and> (key_apply_search vi \<longrightarrow>
                  key_search vi = strip (currentText (saved_search_combo S))))"
  proof (cases "map_of (views S) v")
    case None
    then show ?thesis using a by (simp add: persist_view_config_def)
  next
    case (Some vi0)
    show ?thesis
    proof (cases "sort_get_data (sort_list S)")
      case (Inl e)
      then show ?thesis using a Some by (simp add: persist_view_config_def)
    next
      case (Inr cols)
      then show ?thesis
        using a Some
        by (simp add: persist_view_config_def Let_def update_conv')
    qed
  qed
qed

theorem persist_blanks_disabled_filters_witness:
  "view_name stale_filter_dialog = Some ''Travel''
   \<and> currentText (search_restriction_combo stale_filter_dialog) = ''Unread''
   \<and> apply_restriction_checkbox stale_filter_dialog = Unchecked
   \<and> (case persist_view_config stale_filter_dialog of
         Inl e \<Rightarrow> False
       | Inr S' \<Rightarrow>
          (case map_of (views S') ''Travel'' of
             None \<Rightarrow> False
           | Some vi \<Rightarrow> \<not> key_apply_restriction vi \<and> key_restriction vi = []
                 \<and> \<not> key_apply_search vi \<and> key_search vi = []))"
proof -
  have h: "view_name stale_filter_dialog = Some ''Travel'' \<and> ''Travel'' \<noteq> []" by code_simp
  have c: "currentText (search_restriction_combo stale_filter_dialog) = ''Unread''" by code_simp
  have u: "apply_restriction_checkbox stale_filter_dialog = Unchecked"
    "apply_search_checkbox stale_filter_dialog = Unchecked" by code_simp+
  have r: "case persist_view_config stale_filter_dialog of Inl e \<Rightarrow> False | Inr S' \<Rightarrow> True"
    by code_simp
  then obtain S' where g: "persist_view_config stale_filter_dialog = Inr S'"
    by (cases "persist_view_config stale_filter_dialog") auto
  note t = persist_blanks_disabled_filters [of stale_filter_dialog "''Travel''", rule_format, OF h, unfolded g sum.case]
  obtain vi where m: "map_of (views S') ''Travel'' = Some vi"
    using t by (cases "map_of (views S') ''Travel''") auto
  have "\<not> key_apply_restriction vi \<and> key_restriction vi = []
                 \<and> \<not> key_apply_search vi \<and> key_search vi = []"
    using t u unfolding m option.case by simp
  then show ?thesis
    using h c u by (simp add: g m)
qed

subsection \<open>The column ondevice\<close>

lemma strip_ondevice: "strip ''ondevice'' = ''ondevice''"
  by (simp add: strip_def isspace_def)

lemma get_data_items_ondevice:
  assumes "item \<in> set items" "item_data item = ''ondevice''"
  shows "''ondevice'' \<in> fst ` set (get_data_items w items)"
  using assms
  by (induction items) (auto simp: Let_def strip_ondevice)

lemma populate_column_items:
  "lw_items (populate_column w c b) = lw_items w @
     [\<lparr>item_text = headers (widget_gui w) c, item_data = c,
       user_checkable = (c \<noteq> ''ondevice''),
       check_role = (if c \<noteq> ''ondevice'' then Some (if b then Checked else Unchecked) else None)\<rparr>]"
  by (simp add: populate_column_def)

lemma populate_column_plain:
  assumes "\<forall>i \<in> set (lw_items w). ondevice_plain i"
  shows "\<forall>i \<in> set (lw_items (populate_column w c b)). ondevice_plain i"
  using assms by (auto simp: populate_column_items ondevice_plain_def)

lemma populate_checked_plain:
  assumes "\<forall>i \<in> set (lw_items w). ondevice_plain i"
  shows "\<forall>i \<in> set (lw_items (fst (populate_checked w cols names))). ondevice_plain i"
  using assms
proof (induction w cols names rule: populate_checked.induct)
  case (1 w all_names)
  then show ?case by simp
next
  case (2 w colname width cols all_names)
  then show ?case
    using populate_column_plain by (cases "colname \<in> set all_names") simp_all
qed

lemma foldl_populate_plain:
  assumes "\<forall>i \<in> set (lw_items w). ondevice_plain i"
  shows "\<forall>i \<in> set (lw_items (foldl (\<lambda>b c. populate_column b c False) w cs)). ondevice_plain i"
  using assms
proof (induction cs arbitrary: w)
  case Nil
  then show ?case by simp
next
  case (Cons c cs)
  from Cons.IH [OF populate_column_plain [OF Cons.prems]] show ?case by simp
qed

lemma populate_plain:
  "\<forall>i \<in> set (lw_items (populate w cols all_cols)). ondevice_plain i"
proof -
  let ?w1 = "clear_list (w\<lparr>saved_column_widths := dict_of cols, all_columns_with_widths := all_cols\<rparr>)"
  have "\<forall>i \<in> set (lw_items ?w1). ondevice_plain i" by (simp add: clear_list_def)
  from populate_checked_plain [OF this]
  have "\<forall>i \<in> set (lw_items (fst (populate_checked ?w1 cols (map fst all_cols)))). ondevice_plain i" .
  from foldl_populate_plain [OF this]
  show ?thesis
    by (simp add: populate_def Let_def split_beta)
qed

lemma user_sets_check_ondevice:
  assumes "i < length (lw_items w)" "\<not> user_checkable (lw_items w ! i)"
  shows "user_sets_check i st w = w"
  using assms by (simp add: user_sets_check_def)

text \<open>
  Claim C10. \<open>populate_column\<close> gives the item of the column \<^verbatim>\<open>ondevice\<close> neither
  the user-checkable flag nor a check state, whatever \<open>is_checked\<close> is; so every
  \<^verbatim>\<open>ondevice\<close> item of a populated columns list is like that, and the user cannot
  tick it. \<open>get_data\<close> returns \<^verbatim>\<open>ondevice\<close> whenever the list holds an item for
  it, whatever the check states are, and so the column list that
  \<open>persist_view_config\<close> saves from such a list contains \<^verbatim>\<open>ondevice\<close>.
\<close>

theorem ondevice_always_saved:
  "\<not> user_checkable (last (lw_items (populate_column w ''ondevice'' b)))
   \<and> check_role (last (lw_items (populate_column w ''ondevice'' b))) = None
   \<and> item_data (last (lw_items (populate_column w ''ondevice'' b))) = ''ondevice''
   \<and> (\<forall>item \<in> set (lw_items (populate w cols all_cols)).
         item_data item = ''ondevice'' \<longrightarrow> \<not> user_checkable item \<and> check_role item = None)
   \<and> (\<forall>i st. i < length (lw_items w) \<and> \<not> user_checkable (lw_items w ! i) \<longrightarrow>
         user_sets_check i st w = w)
   \<and> ((\<exists>item \<in> set (lw_items w). item_data item = ''ondevice'') \<longrightarrow>
         ''ondevice'' \<in> fst ` set (get_data w))
   \<and> (\<forall>S'. (\<exists>item \<in> set (lw_items (columns_list S)). item_data item = ''ondevice'')
          \<and> view_name S = Some v \<and> v \<noteq> [] \<and> persist_view_config S = Inr S' \<longrightarrow>
         (case map_of (views S') v of
            None \<Rightarrow> False
          | Some vi \<Rightarrow> ''ondevice'' \<in> fst ` set (key_columns vi)))"
proof (intro conjI allI impI)
  show "\<not> user_checkable (last (lw_items (populate_column w ''ondevice'' b)))"
    by (simp add: populate_column_items)
  show "check_role (last (lw_items (populate_column w ''ondevice'' b))) = None"
    by (simp add: populate_column_items)
  show "item_data (last (lw_items (populate_column w ''ondevice'' b))) = ''ondevice''"
    by (simp add: populate_column_items)
  show "\<forall>item \<in> set (lw_items (populate w cols all_cols)).
         item_data item = ''ondevice'' \<longrightarrow> \<not> user_checkable item \<and> check_role item = None"
    using populate_plain [of w cols all_cols] by (auto simp: ondevice_plain_def)
next
  fix i st assume "i < length (lw_items w) \<and> \<not> user_checkable (lw_items w ! i)"
  then show "user_sets_check i st w = w" by (simp add: user_sets_check_ondevice)
next
  assume "\<exists>item \<in> set (lw_items w). item_data item = ''ondevice''"
  then show "''ondevice'' \<in> fst ` set (get_data w)"
    using get_data_items_ondevice by (auto simp: get_data_def)
next
  fix S'
  assume a: "(\<exists>item \<in> set (lw_items (columns_list S)). item_data item = ''ondevice'')
          \<and> view_name S = Some v \<and> v \<noteq> [] \<and> persist_view_config S = Inr S'"
  then have od: "''ondevice'' \<in> fst ` set (get_data (columns_list S))"
    using get_data_items_ondevice by (auto simp: get_data_def)
  from a have vn: "view_name S = Some v" "v \<noteq> []" and p: "persist_view_config S = Inr S'"
    by simp_all
  from p vn obtain vi where "map_of (views S') v = Some vi"
      "key_columns vi = get_data (columns_list S)"
    by (auto simp: persist_view_config_def Let_def update_Some_unfold
        split: option.splits sum.splits if_splits)
  then show "case map_of (views S') v of
            None \<Rightarrow> False
          | Some vi \<Rightarrow> ''ondevice'' \<in> fst ` set (key_columns vi)"
    using od by simp
qed

theorem ondevice_always_saved_witness:
  "''ondevice'' \<in> fst ` set (get_data (columns_list two_views_dialog))
   \<and> map item_data (lw_items (columns_list two_views_dialog))
       = [''title'', ''authors'', ''ondevice'', ''series'']
   \<and> map checkState (lw_items (columns_list two_views_dialog))
       = [Checked, Checked, Unchecked, Unchecked]
   \<and> user_sets_check 2 Checked (columns_list two_views_dialog) = columns_list two_views_dialog"
proof -
  have e: "\<exists>item \<in> set (lw_items (columns_list two_views_dialog)). item_data item = ''ondevice''"
    by code_simp
  have d: "map item_data (lw_items (columns_list two_views_dialog))
       = [''title'', ''authors'', ''ondevice'', ''series'']" by code_simp
  have c: "map checkState (lw_items (columns_list two_views_dialog))
       = [Checked, Checked, Unchecked, Unchecked]" by code_simp
  have n: "2 < length (lw_items (columns_list two_views_dialog))
      \<and> \<not> user_checkable (lw_items (columns_list two_views_dialog) ! 2)" by code_simp
  note t = ondevice_always_saved [where w = "columns_list two_views_dialog" and S = two_views_dialog
      and v = "''Travel''"]
  note t5 = t [THEN conjunct2, THEN conjunct2, THEN conjunct2, THEN conjunct2]
  have w1: "''ondevice'' \<in> fst ` set (get_data (columns_list two_views_dialog))"
    using t5 [THEN conjunct2, THEN conjunct1] e by blast
  have w2: "user_sets_check 2 Checked (columns_list two_views_dialog) = columns_list two_views_dialog"
    using t5 [THEN conjunct1] n by blast
  show ?thesis using w1 w2 d c by blast
qed

end
